theory Spec2Isabelle
  imports Main
begin

section \<open>Python values, exceptions and the Fabric runtime\<close>

text \<open>
  The admin tasks of \<^verbatim>\<open>server/website/fabfile.py\<close> are Python 2 functions that run shell
  commands through Fabric's \<^verbatim>\<open>local\<close> and print to standard output. The embedding threads an
  explicit state through every task: the operating system (an arbitrary deterministic
  machine \<open>os\<close> over a world \<open>'w\<close>), Fabric's \<^verbatim>\<open>env.warn_only\<close> setting, and the trace of
  everything the task did to the outside (commands run, lines printed). Exceptions are
  values: a task returns \<open>Inl e\<close> where the Python raises \<open>e\<close>.
\<close>

datatype pyval = PyNone | PyBool bool | PyInt int | PyStr string

datatype exn =
    Exception string
  | KeyError string
  | ValueError string
  | SystemExit string

record cmd_result =
  stdout :: string
  return_code :: int

datatype event =
    Ran string bool bool int
  | Printed string

text \<open>
  \<open>Ran command capture warn_only code\<close>: \<^verbatim>\<open>local(command, capture)\<close> was executed while
  \<^verbatim>\<open>env.warn_only\<close> had the given value and the process exited with \<open>code\<close>.
  \<open>Printed line\<close>: a \<^verbatim>\<open>print\<close> statement wrote \<open>line\<close>.
\<close>

type_synonym 'w os = "'w \<Rightarrow> string \<Rightarrow> cmd_result \<times> 'w"

record 'w fab =
  world :: 'w
  warn_only :: bool
  trace :: "event list"

type_synonym ('w, 'a) task = "'w fab \<Rightarrow> (exn + 'a) \<times> 'w fab"

definition return_task :: "'a \<Rightarrow> ('w, 'a) task" where
  "return_task x s = (Inr x, s)"

definition raise :: "exn \<Rightarrow> ('w, 'a) task" where
  "raise e s = (Inl e, s)"

definition bind_task :: "('w, 'a) task \<Rightarrow> ('a \<Rightarrow> ('w, 'b) task) \<Rightarrow> ('w, 'b) task" where
  "bind_task m f s = (case m s of (Inl e, s') \<Rightarrow> (Inl e, s') | (Inr x, s') \<Rightarrow> f x s')"

definition print_line :: "string \<Rightarrow> ('w, unit) task" where
  "print_line line s = (Inr (), s\<lparr>trace := trace s @ [Printed line]\<rparr>)"

subsection \<open>Strings\<close>

definition digit_char :: "nat \<Rightarrow> char" where
  "digit_char d = ''0123456789'' ! d"

function str_nat :: "nat \<Rightarrow> string" where
  "str_nat n = (if n < 10 then [digit_char n] else str_nat (n div 10) @ [digit_char (n mod 10)])"
  by pat_completeness auto
termination
  by (relation "measure (\<lambda>n. n)") auto

declare str_nat.simps [simp del]

definition str_int :: "int \<Rightarrow> string" where
  "str_int i = (if i < 0 then ''-'' @ str_nat (nat (- i)) else str_nat (nat i))"

text \<open>\<^verbatim>\<open>str.lower\<close> on a Python 2 byte string: the 26 ASCII capitals change, nothing else.\<close>

definition lower_char :: "char \<Rightarrow> char" where
  "lower_char c =
     (case map_of (zip ''ABCDEFGHIJKLMNOPQRSTUVWXYZ'' ''abcdefghijklmnopqrstuvwxyz'') c of
        Some l \<Rightarrow> l
      | None \<Rightarrow> c)"

definition lower :: "string \<Rightarrow> string" where
  "lower s = map lower_char s"

definition is_space :: "char \<Rightarrow> bool" where
  "is_space c = (c \<in> set [CHR '' '', CHR 0x09, CHR 0x0A, CHR 0x0B, CHR 0x0C, CHR 0x0D])"

definition strip :: "string \<Rightarrow> string" where
  "strip s = rev (dropWhile is_space (rev (dropWhile is_space s)))"

subsection \<open>Fabric: \<^verbatim>\<open>local\<close> and \<^verbatim>\<open>settings(warn_only=True)\<close>\<close>

text \<open>
  \<^verbatim>\<open>local(command, capture)\<close> runs the command and waits for it. The returned string is
  the stripped standard output when \<open>capture\<close> is set and empty otherwise; its
  \<^verbatim>\<open>return_code\<close> is the exit code. An exit code other than 0 is fatal (Fabric aborts with
  \<^verbatim>\<open>SystemExit\<close>) unless \<^verbatim>\<open>env.warn_only\<close> is set, in which case the result is returned and
  the caller inspects the code itself.
\<close>

definition abort_message :: "int \<Rightarrow> string \<Rightarrow> string" where
  "abort_message code command =
     ''local() encountered an error (return code '' @ str_int code @
     '') while executing '' @ [CHR 0x27] @ command @ [CHR 0x27]"

definition local :: "'w os \<Rightarrow> string \<Rightarrow> bool \<Rightarrow> ('w, cmd_result) task" where
  "local os command capture s =
     (let (p, w') = os (world s) command;
          out = \<lparr>stdout = (if capture then strip (stdout p) else []),
                 return_code = return_code p\<rparr>;
          s' = s\<lparr>world := w',
                 trace := trace s @ [Ran command capture (warn_only s) (return_code p)]\<rparr>
      in if return_code p \<noteq> 0 \<and> \<not> warn_only s
         then (Inl (SystemExit (abort_message (return_code p) command)), s')
         else (Inr out, s'))"

text \<open>
  \<^verbatim>\<open>with settings(warn_only=True): body\<close> sets \<^verbatim>\<open>env.warn_only\<close> for the body and restores
  the previous value on the way out, also when the body raises. \<^verbatim>\<open>quiet()\<close> is
  \<^verbatim>\<open>settings(hide('everything'), warn_only=True)\<close>; hiding only changes what Fabric echoes.
\<close>

definition settings_warn_only :: "('w, 'a) task \<Rightarrow> ('w, 'a) task" where
  "settings_warn_only body s =
     (let old = warn_only s;
          (r, s') = body (s\<lparr>warn_only := True\<rparr>)
      in (r, s'\<lparr>warn_only := old\<rparr>))"

definition quiet :: "('w, 'a) task \<Rightarrow> ('w, 'a) task" where
  "quiet body = settings_warn_only body"

section \<open>The module\<close>

subsection \<open>Status vocabulary\<close>

text \<open>\<^verbatim>\<open>Status = namedtuple('Status', ['RUNNING', 'STOPPED']); STATUS = Status(0, 1)\<close>\<close>

definition STATUS_RUNNING :: int where
  "STATUS_RUNNING = 0"

definition STATUS_STOPPED :: int where
  "STATUS_STOPPED = 1"

definition STATUS_fields :: "string list" where
  "STATUS_fields = [''RUNNING'', ''STOPPED'']"

definition STATUS :: "int list" where
  "STATUS = [STATUS_RUNNING, STATUS_STOPPED]"

definition STATUS_asdict :: "(string \<times> int) list" where
  "STATUS_asdict = zip STATUS_fields STATUS"

text \<open>\<^verbatim>\<open>tuple.index(x)\<close>: the first position of \<open>x\<close>, \<^verbatim>\<open>ValueError\<close> when it is absent.\<close>

fun tuple_index :: "'a list \<Rightarrow> 'a \<Rightarrow> exn + nat" where
  "tuple_index [] v = Inl (ValueError ''tuple.index(x): x not in tuple'')"
| "tuple_index (x # xs) v =
     (if x = v then Inr 0
      else case tuple_index xs v of Inl e \<Rightarrow> Inl e | Inr i \<Rightarrow> Inr (Suc i))"

subsection \<open>Host-dependent command strings\<close>

text \<open>
  \<open>hostname\<close> is \<^verbatim>\<open>local('hostname', capture=True).strip()\<close>, read once when the module is
  loaded. The two command builders are \<^verbatim>\<open>str.format\<close> on templates with the single field
  \<^verbatim>\<open>{action}\<close>.
\<close>

definition PREFIX :: "string \<Rightarrow> string" where
  "PREFIX hostname = (if hostname = ''ottertune'' then ''sudo -u celery '' else [])"

definition SUPERVISOR_CONFIG :: "string \<Rightarrow> string" where
  "SUPERVISOR_CONFIG hostname =
     (if hostname = ''ottertune'' then ''-c config/prod_supervisord.conf''
      else ''-c config/supervisord.conf'')"

definition SUPERVISOR_CMD :: "string \<Rightarrow> string \<Rightarrow> string" where
  "SUPERVISOR_CMD hostname action =
     PREFIX hostname @ ''supervisorctl '' @ SUPERVISOR_CONFIG hostname @
     '' '' @ action @ '' celeryd''"

definition RABBITMQ_CMD :: "string \<Rightarrow> string" where
  "RABBITMQ_CMD action = ''sudo rabbitmqctl '' @ action"

subsection \<open>Helpers\<close>

definition type_name :: "pyval \<Rightarrow> string" where
  "type_name v =
     (case v of PyNone \<Rightarrow> ''NoneType'' | PyBool _ \<Rightarrow> ''bool''
      | PyInt _ \<Rightarrow> ''int'' | PyStr _ \<Rightarrow> ''str'')"

definition type_repr :: "pyval \<Rightarrow> string" where
  "type_repr v = ''<type '' @ [CHR 0x27] @ type_name v @ [CHR 0x27] @ ''>''"

definition parse_bool :: "pyval \<Rightarrow> exn + bool" where
  "parse_bool v =
     (case v of
        PyBool b \<Rightarrow> Inr b
      | PyStr s \<Rightarrow> Inr (lower s = ''true'')
      | _ \<Rightarrow> Inl (Exception (''Cannot convert '' @ type_repr v @ '' to bool'')))"

definition print_status :: "int \<Rightarrow> string \<Rightarrow> ('w, unit) task" where
  "print_status status task_name =
     (case tuple_index STATUS status of
        Inl e \<Rightarrow> raise e
      | Inr i \<Rightarrow> print_line (task_name @ '' status: '' @ STATUS_fields ! i))"

subsection \<open>Broker tasks\<close>

definition start_rabbitmq :: "'w os \<Rightarrow> pyval \<Rightarrow> ('w, unit) task" where
  "start_rabbitmq os detached =
     (case parse_bool detached of
        Inl e \<Rightarrow> raise e
      | Inr d \<Rightarrow>
          bind_task
            (local os (''sudo rabbitmq-server'' @ (if d then '' -detached'' else [])) False)
            (\<lambda>_. return_task ()))"

definition stop_rabbitmq :: "'w os \<Rightarrow> ('w, unit) task" where
  "stop_rabbitmq os =
     bind_task (settings_warn_only (local os (RABBITMQ_CMD ''stop'') False))
       (\<lambda>_. return_task ())"

definition status_rabbitmq :: "'w os \<Rightarrow> ('w, int) task" where
  "status_rabbitmq os =
     bind_task (settings_warn_only (quiet (local os (RABBITMQ_CMD ''status'') True)))
       (\<lambda>res.
          bind_task
            (if return_code res = 2 \<or> return_code res = 69 then return_task STATUS_STOPPED
             else if return_code res = 0 then return_task STATUS_RUNNING
             else raise (Exception (''Rabbitmq: unknown status '' @ str_int (return_code res))))
            (\<lambda>status.
               bind_task (print_line (str_int status))
                 (\<lambda>_. bind_task (print_status status ''rabbitmq'')
                   (\<lambda>_. return_task status))))"

subsection \<open>Worker-pool tasks\<close>

definition celery_worker_cmd :: "string \<Rightarrow> string" where
  "celery_worker_cmd hostname = PREFIX hostname @ ''python manage.py celery worker -l info''"

definition start_celery :: "'w os \<Rightarrow> string \<Rightarrow> pyval \<Rightarrow> ('w, unit) task" where
  "start_celery os hostname detached =
     bind_task (status_rabbitmq os)
       (\<lambda>st.
          bind_task
            (if st = STATUS_STOPPED then start_rabbitmq os (PyBool True) else return_task ())
            (\<lambda>_.
               case parse_bool detached of
                 Inl e \<Rightarrow> raise e
               | Inr d \<Rightarrow>
                   bind_task
                     (if d then local os (SUPERVISOR_CMD hostname ''start'') False
                      else local os (celery_worker_cmd hostname) False)
                     (\<lambda>_. return_task ())))"

definition stop_celery :: "'w os \<Rightarrow> string \<Rightarrow> ('w, unit) task" where
  "stop_celery os hostname =
     bind_task (local os (SUPERVISOR_CMD hostname ''stop'') False) (\<lambda>_. return_task ())"

definition field_extraction :: string where
  "field_extraction =
     '' | tr -s '' @ [CHR 0x27] @ '' '' @ [CHR 0x27] @
     '' | cut -d '' @ [CHR 0x27] @ '' '' @ [CHR 0x27] @ '' -f2''"

definition status_celery :: "'w os \<Rightarrow> string \<Rightarrow> ('w, int) task" where
  "status_celery os hostname =
     bind_task (local os (SUPERVISOR_CMD hostname ''status'' @ field_extraction) True)
       (\<lambda>res.
          bind_task
            (case map_of STATUS_asdict (stdout res) of
               Some status \<Rightarrow> return_task status
             | None \<Rightarrow>
                 if stdout res = ''STARTING'' then return_task STATUS_RUNNING
                 else if stdout res = ''FATAL'' then return_task STATUS_STOPPED
                 else raise (KeyError (stdout res)))
            (\<lambda>status.
               bind_task (print_status status ''celery'') (\<lambda>_. return_task status)))"

subsection \<open>Composite tasks\<close>

definition stop_all :: "'w os \<Rightarrow> string \<Rightarrow> ('w, unit) task" where
  "stop_all os hostname =
     bind_task (stop_celery os hostname) (\<lambda>_. stop_rabbitmq os)"

section \<open>Observing a run\<close>

text \<open>What a task added to the trace, between the state it started in and the one it left.\<close>

definition new_events :: "'w fab \<Rightarrow> 'w fab \<Rightarrow> event list" where
  "new_events s s' = drop (length (trace s)) (trace s')"

fun ran :: "string \<Rightarrow> event \<Rightarrow> bool" where
  "ran c (Ran c' _ _ _) = (c' = c)"
| "ran c (Printed _) = False"

fun ran_with_code :: "string \<Rightarrow> int \<Rightarrow> event \<Rightarrow> bool" where
  "ran_with_code c k (Ran c' _ _ k') = (c' = c \<and> k' = k)"
| "ran_with_code c k (Printed _) = False"

definition broker_status_query :: "event \<Rightarrow> bool" where
  "broker_status_query e = ran (RABBITMQ_CMD ''status'') e"

definition broker_start :: "event \<Rightarrow> bool" where
  "broker_start e = (ran ''sudo rabbitmq-server -detached'' e \<or> ran ''sudo rabbitmq-server'' e)"

definition broker_stop :: "event \<Rightarrow> bool" where
  "broker_stop e = ran (RABBITMQ_CMD ''stop'') e"

definition pool_start :: "string \<Rightarrow> event \<Rightarrow> bool" where
  "pool_start hostname e =
     (ran (SUPERVISOR_CMD hostname ''start'') e \<or> ran (celery_worker_cmd hostname) e)"

definition pool_stop :: "string \<Rightarrow> event \<Rightarrow> bool" where
  "pool_stop hostname e = ran (SUPERVISOR_CMD hostname ''stop'') e"

text \<open>
  \<open>preceded P Q evs\<close>: every event of \<open>evs\<close> that satisfies \<open>Q\<close> comes after an earlier
  event that satisfies \<open>P\<close>.
\<close>

fun preceded :: "(event \<Rightarrow> bool) \<Rightarrow> (event \<Rightarrow> bool) \<Rightarrow> event list \<Rightarrow> bool" where
  "preceded P Q [] = True"
| "preceded P Q (e # es) = (\<not> Q e \<and> (P e \<or> preceded P Q es))"

text \<open>
  A scripted operating system for concrete runs: the world is the list of results still to
  be handed out, one per command, in order; once the script is used up every command
  succeeds with no output.
\<close>

definition scripted_os :: "(cmd_result list) os" where
  "scripted_os w command =
     (case w of
        [] \<Rightarrow> (\<lparr>stdout = [], return_code = 0\<rparr>, [])
      | r # rs \<Rightarrow> (r, rs))"

definition exits :: "int \<Rightarrow> cmd_result" where
  "exits k = \<lparr>stdout = [], return_code = k\<rparr>"

definition fresh :: "cmd_result list \<Rightarrow> (cmd_result list) fab" where
  "fresh script = \<lparr>world = script, warn_only = False, trace = []\<rparr>"

text \<open>
  Names for what the operating system answers when command \<open>c\<close> is run in state \<open>s\<close>,
  and for the state \<^verbatim>\<open>local\<close> leaves behind.
\<close>

definition code_of :: "'w os \<Rightarrow> 'w fab \<Rightarrow> string \<Rightarrow> int" where
  "code_of os s c = return_code (fst (os (world s) c))"

definition output_of :: "'w os \<Rightarrow> 'w fab \<Rightarrow> string \<Rightarrow> string" where
  "output_of os s c = stdout (fst (os (world s) c))"

definition after :: "'w os \<Rightarrow> string \<Rightarrow> bool \<Rightarrow> 'w fab \<Rightarrow> 'w fab" where
  "after os c capture s =
     s\<lparr>world := snd (os (world s) c),
       trace := trace s @ [Ran c capture (warn_only s) (code_of os s c)]\<rparr>"

definition status_checked :: "'w os \<Rightarrow> 'w fab \<Rightarrow> 'w fab" where
  "status_checked os s =
     s\<lparr>world := snd (os (world s) (RABBITMQ_CMD ''status'')),
       trace := trace s @
         [Ran (RABBITMQ_CMD ''status'') True True (code_of os s (RABBITMQ_CMD ''status''))]\<rparr>"

definition status_name :: "int \<Rightarrow> string" where
  "status_name st = (if st = STATUS_RUNNING then ''RUNNING'' else ''STOPPED'')"

text \<open>
  The second half of \<^verbatim>\<open>start_celery\<close>, from \<^verbatim>\<open>detached = parse_bool(detached)\<close> on: the
  command it chooses, what it returns and what it adds to the trace.
\<close>

definition pool_cmd :: "string \<Rightarrow> bool \<Rightarrow> string" where
  "pool_cmd hostname d =
     (if d then SUPERVISOR_CMD hostname ''start'' else celery_worker_cmd hostname)"

definition pool_step :: "'w os \<Rightarrow> string \<Rightarrow> pyval \<Rightarrow> ('w, unit) task" where
  "pool_step os hostname detached s =
     (case parse_bool detached of
        Inl e \<Rightarrow> (Inl e, s)
      | Inr d \<Rightarrow>
          (if code_of os s (pool_cmd hostname d) \<noteq> 0 \<and> \<not> warn_only s
           then Inl (SystemExit
                  (abort_message (code_of os s (pool_cmd hostname d)) (pool_cmd hostname d)))
           else Inr (),
           after os (pool_cmd hostname d) False s))"

definition pool_events :: "'w os \<Rightarrow> string \<Rightarrow> pyval \<Rightarrow> 'w fab \<Rightarrow> event list" where
  "pool_events os hostname detached s =
     (case parse_bool detached of
        Inl e \<Rightarrow> []
      | Inr d \<Rightarrow>
          [Ran (pool_cmd hostname d) False (warn_only s) (code_of os s (pool_cmd hostname d))])"

definition printed :: "string list \<Rightarrow> 'w fab \<Rightarrow> 'w fab" where
  "printed ls s = s\<lparr>trace := trace s @ map Printed ls\<rparr>"

text \<open>Events that tell the caller the broker is up, and the pool's status command.\<close>

definition broker_confirmed_running :: "event \<Rightarrow> bool" where
  "broker_confirmed_running e = ran_with_code (RABBITMQ_CMD ''status'') 0 e"

definition broker_started_ok :: "event \<Rightarrow> bool" where
  "broker_started_ok e = ran_with_code ''sudo rabbitmq-server -detached'' 0 e"

definition celery_status_cmd :: "string \<Rightarrow> string" where
  "celery_status_cmd hostname = SUPERVISOR_CMD hostname ''status'' @ field_extraction"

section \<open>How each task runs\<close>

lemma local_run:
  "local os c capture s =
     (if code_of os s c \<noteq> 0 \<and> \<not> warn_only s
      then Inl (SystemExit (abort_message (code_of os s c) c))
      else Inr \<lparr>stdout = (if capture then strip (output_of os s c) else []),
                return_code = code_of os s c\<rparr>,
      after os c capture s)"
  by (simp add: local_def code_of_def output_of_def after_def split: prod.split)

lemma str_int_0: "str_int 0 = ''0''"
  by (simp add: str_int_def str_nat.simps digit_char_def)

lemma str_int_1: "str_int 1 = ''1''"
  by (simp add: str_int_def str_nat.simps digit_char_def)

lemma print_status_STOPPED:
  "print_status STATUS_STOPPED name s =
     (Inr (), s\<lparr>trace := trace s @ [Printed (name @ '' status: STOPPED'')]\<rparr>)"
  by (simp add: print_status_def STATUS_def STATUS_fields_def STATUS_RUNNING_def
      STATUS_STOPPED_def print_line_def)

lemma print_status_RUNNING:
  "print_status STATUS_RUNNING name s =
     (Inr (), s\<lparr>trace := trace s @ [Printed (name @ '' status: RUNNING'')]\<rparr>)"
  by (simp add: print_status_def STATUS_def STATUS_fields_def STATUS_RUNNING_def
      STATUS_STOPPED_def print_line_def)

lemma status_rabbitmq_run:
  "status_rabbitmq os s =
     (let k = code_of os s (RABBITMQ_CMD ''status''); s1 = status_checked os s in
      if k = 2 \<or> k = 69 then
        (Inr STATUS_STOPPED,
         s1\<lparr>trace := trace s1 @ [Printed ''1'', Printed ''rabbitmq status: STOPPED'']\<rparr>)
      else if k = 0 then
        (Inr STATUS_RUNNING,
         s1\<lparr>trace := trace s1 @ [Printed ''0'', Printed ''rabbitmq status: RUNNING'']\<rparr>)
      else (Inl (Exception (''Rabbitmq: unknown status '' @ str_int k)), s1))"
  by (simp add: status_rabbitmq_def bind_task_def settings_warn_only_def quiet_def local_run
      after_def code_of_def status_checked_def return_task_def raise_def print_line_def
      print_status_STOPPED print_status_RUNNING Let_def)
     (simp add: STATUS_STOPPED_def STATUS_RUNNING_def str_int_0 str_int_1)

lemma stop_rabbitmq_run:
  "stop_rabbitmq os s =
     (Inr (),
      s\<lparr>world := snd (os (world s) (RABBITMQ_CMD ''stop'')),
        trace := trace s @
          [Ran (RABBITMQ_CMD ''stop'') False True (code_of os s (RABBITMQ_CMD ''stop''))]\<rparr>)"
  by (simp add: stop_rabbitmq_def bind_task_def settings_warn_only_def local_run after_def
      code_of_def return_task_def)

lemma scripted_code:
  "code_of scripted_os (fresh (r # rs)) c = return_code r"
  by (simp add: code_of_def scripted_os_def fresh_def)

lemma start_rabbitmq_run:
  "start_rabbitmq os detached s =
     (case parse_bool detached of
        Inl e \<Rightarrow> (Inl e, s)
      | Inr d \<Rightarrow>
          (let c = ''sudo rabbitmq-server'' @ (if d then '' -detached'' else []) in
           (if code_of os s c \<noteq> 0 \<and> \<not> warn_only s
            then Inl (SystemExit (abort_message (code_of os s c) c)) else Inr (),
            after os c False s)))"
  by (simp add: start_rabbitmq_def bind_task_def local_run return_task_def raise_def Let_def
      split: sum.split)

lemma parse_bool_True: "parse_bool (PyBool True) = Inr True"
  by (simp add: parse_bool_def)

lemma start_celery_run:
  "start_celery os hostname detached s =
     (let k = code_of os s (RABBITMQ_CMD ''status''); s1 = status_checked os s in
      if k = 2 \<or> k = 69 then
        (let s2 = printed [''1'', ''rabbitmq status: STOPPED''] s1;
             c = ''sudo rabbitmq-server -detached'' in
         if code_of os s2 c \<noteq> 0 \<and> \<not> warn_only s2
         then (Inl (SystemExit (abort_message (code_of os s2 c) c)), after os c False s2)
         else pool_step os hostname detached (after os c False s2))
      else if k = 0 then
        pool_step os hostname detached (printed [''0'', ''rabbitmq status: RUNNING''] s1)
      else (Inl (Exception (''Rabbitmq: unknown status '' @ str_int k)), s1))"
  by (simp add: start_celery_def bind_task_def status_rabbitmq_run start_rabbitmq_run
      parse_bool_True local_run return_task_def raise_def Let_def pool_step_def pool_cmd_def
      printed_def STATUS_STOPPED_def STATUS_RUNNING_def split: sum.split)

lemma trace_pool_step:
  "trace (snd (pool_step os hostname detached s)) = trace s @ pool_events os hostname detached s"
  by (simp add: pool_step_def pool_events_def after_def split: sum.split)

lemma start_celery_events:
  "new_events s (snd (start_celery os hostname detached s)) =
     (let k = code_of os s (RABBITMQ_CMD ''status''); s1 = status_checked os s in
      Ran (RABBITMQ_CMD ''status'') True True k #
      (if k = 2 \<or> k = 69 then
         (let s2 = printed [''1'', ''rabbitmq status: STOPPED''] s1;
              c = ''sudo rabbitmq-server -detached'' in
          [Printed ''1'', Printed ''rabbitmq status: STOPPED'',
           Ran c False (warn_only s) (code_of os s2 c)] @
          (if code_of os s2 c \<noteq> 0 \<and> \<not> warn_only s then []
           else pool_events os hostname detached (after os c False s2)))
       else if k = 0 then
         [Printed ''0'', Printed ''rabbitmq status: RUNNING''] @
         pool_events os hostname detached (printed [''0'', ''rabbitmq status: RUNNING''] s1)
       else []))"
  by (simp add: start_celery_run new_events_def Let_def trace_pool_step after_def printed_def
      status_checked_def)

lemma pool_events_no_broker_start:
  "filter broker_start (pool_events os hostname detached s) = []"
  by (simp add: pool_events_def broker_start_def pool_cmd_def SUPERVISOR_CMD_def
      celery_worker_cmd_def PREFIX_def SUPERVISOR_CONFIG_def split: sum.split)

lemma pool_events_no_status_query:
  "filter broker_status_query (pool_events os hostname detached s) = []"
  by (simp add: pool_events_def broker_status_query_def RABBITMQ_CMD_def pool_cmd_def
      SUPERVISOR_CMD_def celery_worker_cmd_def PREFIX_def SUPERVISOR_CONFIG_def split: sum.split)

text \<open>What \<open>preceded\<close> says, by positions in the trace.\<close>

lemma preceded_index:
  "preceded P Q evs \<longleftrightarrow> (\<forall>i<length evs. Q (evs ! i) \<longrightarrow> (\<exists>j<i. P (evs ! j)))"
proof (induction evs)
  case Nil
  show ?case by simp
next
  case (Cons e es)
  have "(\<forall>i<length (e # es). Q ((e # es) ! i) \<longrightarrow> (\<exists>j<i. P ((e # es) ! j))) \<longleftrightarrow>
        \<not> Q e \<and> (\<forall>n<length es. Q (es ! n) \<longrightarrow> P e \<or> (\<exists>j<n. P (es ! j)))"
    by (simp add: All_less_Suc2 Ex_less_Suc2)
  also have "\<dots> \<longleftrightarrow> \<not> Q e \<and> (P e \<or> preceded P Q es)"
    using Cons.IH by auto
  finally show ?case by simp
qed

lemma status_celery_run:
  "status_celery os hostname s =
     (let c = celery_status_cmd hostname; k = code_of os s c;
          tok = strip (output_of os s c); s1 = after os c True s in
      if k \<noteq> 0 \<and> \<not> warn_only s then (Inl (SystemExit (abort_message k c)), s1)
      else if tok = ''RUNNING'' then
        (Inr STATUS_RUNNING, printed [''celery status: RUNNING''] s1)
      else if tok = ''STOPPED'' then
        (Inr STATUS_STOPPED, printed [''celery status: STOPPED''] s1)
      else if tok = ''STARTING'' then
        (Inr STATUS_RUNNING, printed [''celery status: RUNNING''] s1)
      else if tok = ''FATAL'' then
        (Inr STATUS_STOPPED, printed [''celery status: STOPPED''] s1)
      else (Inl (KeyError tok), s1))"
  by (simp add: status_celery_def celery_status_cmd_def bind_task_def local_run Let_def
      STATUS_asdict_def STATUS_fields_def STATUS_def return_task_def raise_def
      print_status_STOPPED print_status_RUNNING printed_def)

lemma stop_celery_run:
  "stop_celery os hostname s =
     (let c = SUPERVISOR_CMD hostname ''stop''; k = code_of os s c in
      (if k \<noteq> 0 \<and> \<not> warn_only s then Inl (SystemExit (abort_message k c)) else Inr (),
       after os c False s))"
  by (simp add: stop_celery_def bind_task_def local_run return_task_def Let_def)

lemma parse_bool_error:
  "parse_bool v = Inl e \<Longrightarrow> e = Exception (''Cannot convert '' @ type_repr v @ '' to bool'')"
  by (cases v) (simp_all add: parse_bool_def)

lemma pool_events_invalid: "parse_bool detached = Inl e \<Longrightarrow> pool_events os hostname detached s = []"
  by (simp add: pool_events_def)

lemma pool_step_invalid: "parse_bool detached = Inl e \<Longrightarrow> pool_step os hostname detached s = (Inl e, s)"
  by (simp add: pool_step_def)

lemma code_of_printed: "code_of os (printed ls s) c = code_of os s c"
  by (simp add: code_of_def printed_def)

lemma warn_only_printed: "warn_only (printed ls s) = warn_only s"
  by (simp add: printed_def)

lemma warn_only_status_checked: "warn_only (status_checked os s) = warn_only s"
  by (simp add: status_checked_def)

lemma start_celery_invalid_result:
  assumes "parse_bool detached = Inl e"
  shows "fst (start_celery os hostname detached s) =
     (let k = code_of os s (RABBITMQ_CMD ''status'');
          c = ''sudo rabbitmq-server -detached'';
          k' = code_of os (status_checked os s) c in
      if k = 0 then Inl e
      else if k = 2 \<or> k = 69 then
        (if k' \<noteq> 0 \<and> \<not> warn_only s then Inl (SystemExit (abort_message k' c)) else Inl e)
      else Inl (Exception (''Rabbitmq: unknown status '' @ str_int k)))"
  by (simp add: start_celery_run pool_step_invalid [OF assms] Let_def code_of_printed
      warn_only_printed warn_only_status_checked)

lemma start_celery_invalid_events:
  assumes "parse_bool detached = Inl e"
  shows "new_events s (snd (start_celery os hostname detached s)) =
     (let k = code_of os s (RABBITMQ_CMD ''status'');
          c = ''sudo rabbitmq-server -detached'';
          k' = code_of os (status_checked os s) c in
      Ran (RABBITMQ_CMD ''status'') True True k #
      (if k = 2 \<or> k = 69 then
         [Printed ''1'', Printed ''rabbitmq status: STOPPED'', Ran c False (warn_only s) k']
       else if k = 0 then [Printed ''0'', Printed ''rabbitmq status: RUNNING'']
       else []))"
  by (simp add: start_celery_events pool_events_invalid [OF assms] Let_def code_of_printed)

lemma pool_events_all_pool_start:
  "preceded P (pool_start hostname) (e # pool_events os hostname detached s) \<longleftrightarrow>
   \<not> pool_start hostname e \<and> (P e \<or> pool_events os hostname detached s = [])"
  by (auto simp add: pool_events_def pool_start_def pool_cmd_def split: sum.splits)

lemma pool_events_valid:
  "parse_bool detached = Inr d \<Longrightarrow>
   pool_events os hostname detached s =
     [Ran (pool_cmd hostname d) False (warn_only s) (code_of os s (pool_cmd hostname d))]"
  by (simp add: pool_events_def)

lemma pool_start_pool_cmd: "pool_start hostname (Ran (pool_cmd hostname d) c w k)"
  by (simp add: pool_start_def pool_cmd_def)

lemma pool_cmd_not_broker_start: "\<not> broker_start (Ran (pool_cmd hostname d) c w k)"
  by (simp add: broker_start_def pool_cmd_def SUPERVISOR_CMD_def celery_worker_cmd_def
      PREFIX_def SUPERVISOR_CONFIG_def)

section \<open>Broker status\<close>

text \<open>
  C1. Whatever the operating system does, \<^verbatim>\<open>status_rabbitmq\<close> returns RUNNING when the
  status command exits with code 0, returns STOPPED when it exits with 2 or 69, and for
  every other exit code raises the exception whose message is
  \<^verbatim>\<open>Rabbitmq: unknown status\<close> followed by that code; the two statuses are different values,
  so no exit code is mapped to a default.
\<close>

theorem status_rabbitmq_exit_codes:
  "fst (status_rabbitmq os s) =
     (let k = code_of os s (RABBITMQ_CMD ''status'') in
      if k = 0 then Inr STATUS_RUNNING
      else if k = 2 \<or> k = 69 then Inr STATUS_STOPPED
      else Inl (Exception (''Rabbitmq: unknown status '' @ str_int k)))
   \<and> STATUS_RUNNING \<noteq> STATUS_STOPPED"
  by (simp add: status_rabbitmq_run Let_def STATUS_RUNNING_def STATUS_STOPPED_def)

theorem status_rabbitmq_exit_codes_witness:
  "fst (status_rabbitmq scripted_os (fresh [exits 69])) = Inr STATUS_STOPPED
   \<and> fst (status_rabbitmq scripted_os (fresh [exits 0])) = Inr STATUS_RUNNING
   \<and> fst (status_rabbitmq scripted_os (fresh [exits 1])) =
       Inl (Exception ''Rabbitmq: unknown status 1'')"
  using status_rabbitmq_exit_codes [of scripted_os "fresh [exits 69]"]
    status_rabbitmq_exit_codes [of scripted_os "fresh [exits 0]"]
    status_rabbitmq_exit_codes [of scripted_os "fresh [exits 1]"]
  by (simp add: scripted_code exits_def str_int_1)

section \<open>Stopping the broker\<close>

text \<open>
  C7. \<^verbatim>\<open>stop_rabbitmq\<close> runs exactly one command, the broker stop command, with
  \<^verbatim>\<open>warn_only\<close> in force, and returns normally whatever that command's exit code is: in
  particular a nonzero exit from stopping a broker that is already stopped raises nothing.
\<close>

theorem stop_rabbitmq_never_fails:
  "fst (stop_rabbitmq os s) = Inr ()
   \<and> new_events s (snd (stop_rabbitmq os s)) =
       [Ran ''sudo rabbitmqctl stop'' False True (code_of os s ''sudo rabbitmqctl stop'')]
   \<and> warn_only (snd (stop_rabbitmq os s)) = warn_only s"
  by (simp add: stop_rabbitmq_run new_events_def RABBITMQ_CMD_def)

theorem stop_rabbitmq_never_fails_witness:
  "fst (stop_rabbitmq scripted_os (fresh [exits 69])) = Inr ()
   \<and> new_events (fresh [exits 69]) (snd (stop_rabbitmq scripted_os (fresh [exits 69]))) =
       [Ran ''sudo rabbitmqctl stop'' False True 69]"
  using stop_rabbitmq_never_fails [of scripted_os "fresh [exits 69]"]
  by (simp add: scripted_code exits_def)

section \<open>Parsing the detached flag\<close>

text \<open>
  C10. \<^verbatim>\<open>parse_bool\<close> returns a boolean unchanged; for a string it returns whether the
  lower-cased string is \<^verbatim>\<open>true\<close> (so \<^verbatim>\<open>True\<close> and \<^verbatim>\<open>TRUE\<close> give True, and a string such as
  \<^verbatim>\<open>yes\<close> gives False) and never raises; it raises exactly for the values that are neither
  booleans nor strings.
\<close>

theorem parse_bool_cases:
  "parse_bool (PyBool b) = Inr b
   \<and> parse_bool (PyStr str) = Inr (lower str = ''true'')
   \<and> parse_bool (PyStr ''True'') = Inr True
   \<and> parse_bool (PyStr ''TRUE'') = Inr True
   \<and> parse_bool (PyStr ''yes'') = Inr False
   \<and> ((\<exists>e. parse_bool v = Inl e) \<longleftrightarrow> (\<forall>b'. v \<noteq> PyBool b') \<and> (\<forall>str'. v \<noteq> PyStr str'))"
  by (cases v) (simp_all add: parse_bool_def lower_def lower_char_def)

theorem parse_bool_cases_witness:
  "parse_bool (PyStr ''tRuE'') = Inr True
   \<and> parse_bool (PyInt 1) = Inl (Exception ''Cannot convert <type 'int'> to bool'')"
  using parse_bool_cases [of True "''tRuE''" "PyInt 1"]
  by (simp add: parse_bool_def lower_def lower_char_def type_repr_def type_name_def)

section \<open>Starting the worker pool\<close>

text \<open>
  C3. When the broker status query made by \<^verbatim>\<open>start_celery\<close> reports STOPPED, the run of
  \<^verbatim>\<open>start_celery\<close> contains exactly one broker start command, and every pool start action
  in it (the supervisor start command or the foreground worker command) comes after that
  broker start. The pool start action is really issued, once and as the last event of the
  run, whenever the detached flag parses and the broker start command did not abort the
  task (it exited with code 0, or \<^verbatim>\<open>env.warn_only\<close> was already set by the caller);
  otherwise it is not issued. When the query reports RUNNING, the run contains no broker
  start command, and the pool start action is issued, once and last, exactly when the
  detached flag parses.
\<close>

theorem start_celery_broker_first:
  "fst (status_rabbitmq os s) = Inr st \<Longrightarrow>
   (let evs = new_events s (snd (start_celery os hostname detached s));
        k' = code_of os (status_checked os s) ''sudo rabbitmq-server -detached'';
        parses = (\<exists>d. parse_bool detached = Inr d) in
    (st = STATUS_STOPPED \<longrightarrow>
       length (filter broker_start evs) = 1
       \<and> preceded broker_start (pool_start hostname) evs
       \<and> length (filter (pool_start hostname) evs) =
           (if (k' = 0 \<or> warn_only s) \<and> parses then 1 else 0)
       \<and> ((k' = 0 \<or> warn_only s) \<and> parses \<longrightarrow> pool_start hostname (last evs)))
    \<and> (st = STATUS_RUNNING \<longrightarrow>
       filter broker_start evs = []
       \<and> length (filter (pool_start hostname) evs) = (if parses then 1 else 0)
       \<and> (parses \<longrightarrow> pool_start hostname (last evs))))"
proof -
  assume st: "fst (status_rabbitmq os s) = Inr st"
  let ?k = "code_of os s (RABBITMQ_CMD ''status'')"
  let ?evs = "new_events s (snd (start_celery os hostname detached s))"
  let ?k' = "code_of os (status_checked os s) ''sudo rabbitmq-server -detached''"
  let ?parses = "\<exists>d. parse_bool detached = Inr d"
  have not_pool:
    "\<not> pool_start hostname (Ran (RABBITMQ_CMD ''status'') True True ?k)"
    "\<not> pool_start hostname (Printed x)"
    "\<not> pool_start hostname (Ran ''sudo rabbitmq-server -detached'' False w j)" for x w j
    by (simp_all add: pool_start_def RABBITMQ_CMD_def SUPERVISOR_CMD_def celery_worker_cmd_def
        PREFIX_def SUPERVISOR_CONFIG_def)
  have brk:
    "\<not> broker_start (Ran (RABBITMQ_CMD ''status'') True True ?k)"
    "\<not> broker_start (Printed x)"
    "broker_start (Ran ''sudo rabbitmq-server -detached'' False w j)" for x w j
    by (simp_all add: broker_start_def RABBITMQ_CMD_def)
  have stopped: "st = STATUS_STOPPED \<Longrightarrow> ?k = 2 \<or> ?k = 69"
    using st by (auto simp add: status_rabbitmq_run Let_def STATUS_STOPPED_def
        STATUS_RUNNING_def split: if_splits)
  have running: "st = STATUS_RUNNING \<Longrightarrow> ?k = 0"
    using st by (auto simp add: status_rabbitmq_run Let_def STATUS_STOPPED_def
        STATUS_RUNNING_def split: if_splits)
  have A: "length (filter broker_start ?evs) = 1
       \<and> preceded broker_start (pool_start hostname) ?evs
       \<and> length (filter (pool_start hostname) ?evs) =
           (if (?k' = 0 \<or> warn_only s) \<and> ?parses then 1 else 0)
       \<and> ((?k' = 0 \<or> warn_only s) \<and> ?parses \<longrightarrow> pool_start hostname (last ?evs))"
    if "st = STATUS_STOPPED"
  proof -
    from stopped [OF that] have k: "?k = 2 \<or> ?k = 69" .
    have evs: "?evs =
      [Ran (RABBITMQ_CMD ''status'') True True ?k, Printed ''1'',
       Printed ''rabbitmq status: STOPPED'',
       Ran ''sudo rabbitmq-server -detached'' False (warn_only s) ?k'] @
      (if ?k' \<noteq> 0 \<and> \<not> warn_only s then []
       else pool_events os hostname detached
         (after os ''sudo rabbitmq-server -detached'' False
           (printed [''1'', ''rabbitmq status: STOPPED''] (status_checked os s))))"
      using k by (auto simp add: start_celery_events Let_def code_of_printed)
    show ?thesis
    proof (cases "parse_bool detached")
      case (Inl e)
      then show ?thesis
        unfolding evs
        by (simp add: not_pool brk pool_events_invalid [OF Inl])
    next
      case (Inr d)
      then show ?thesis
        unfolding evs
        by (simp add: not_pool brk pool_events_valid [OF Inr] pool_start_pool_cmd
            pool_cmd_not_broker_start)
    qed
  qed
  have B: "filter broker_start ?evs = []
       \<and> length (filter (pool_start hostname) ?evs) = (if ?parses then 1 else 0)
       \<and> (?parses \<longrightarrow> pool_start hostname (last ?evs))"
    if "st = STATUS_RUNNING"
  proof -
    from running [OF that] have k: "?k = 0" .
    have evs: "?evs =
      [Ran (RABBITMQ_CMD ''status'') True True ?k, Printed ''0'',
       Printed ''rabbitmq status: RUNNING''] @
      pool_events os hostname detached
        (printed [''0'', ''rabbitmq status: RUNNING''] (status_checked os s))"
      using k by (simp add: start_celery_events Let_def)
    show ?thesis
    proof (cases "parse_bool detached")
      case (Inl e)
      then show ?thesis
        unfolding evs
        by (simp add: not_pool brk pool_events_invalid [OF Inl])
    next
      case (Inr d)
      then show ?thesis
        unfolding evs
        by (simp add: not_pool brk pool_events_valid [OF Inr] pool_start_pool_cmd
            pool_cmd_not_broker_start)
    qed
  qed
  show ?thesis
    using A B by (simp only: Let_def) blast
qed

theorem start_celery_broker_first_witness:
  "fst (status_rabbitmq scripted_os (fresh [exits 2])) = Inr STATUS_STOPPED
   \<and> new_events (fresh [exits 2])
        (snd (start_celery scripted_os ''localhost'' (PyBool True) (fresh [exits 2]))) =
       [Ran ''sudo rabbitmqctl status'' True True 2, Printed ''1'',
        Printed ''rabbitmq status: STOPPED'',
        Ran ''sudo rabbitmq-server -detached'' False False 0,
        Ran ''supervisorctl -c config/supervisord.conf start celeryd'' False False 0]
   \<and> length (filter broker_start
        (new_events (fresh [exits 2])
          (snd (start_celery scripted_os ''localhost'' (PyBool True) (fresh [exits 2]))))) = 1
   \<and> preceded broker_start (pool_start ''localhost'')
        (new_events (fresh [exits 2])
          (snd (start_celery scripted_os ''localhost'' (PyBool True) (fresh [exits 2]))))
   \<and> length (filter (pool_start ''localhost'')
        (new_events (fresh [exits 2])
          (snd (start_celery scripted_os ''localhost'' (PyBool True) (fresh [exits 2]))))) = 1
   \<and> pool_start ''localhost''
        (last (new_events (fresh [exits 2])
          (snd (start_celery scripted_os ''localhost'' (PyBool True) (fresh [exits 2])))))
   \<and> fst (status_rabbitmq scripted_os (fresh [exits 0])) = Inr STATUS_RUNNING
   \<and> filter broker_start
        (new_events (fresh [exits 0])
          (snd (start_celery scripted_os ''localhost'' (PyBool True) (fresh [exits 0])))) = []
   \<and> length (filter (pool_start ''localhost'')
        (new_events (fresh [exits 0])
          (snd (start_celery scripted_os ''localhost'' (PyBool True) (fresh [exits 0]))))) = 1"
proof -
  have stopped: "fst (status_rabbitmq scripted_os (fresh [exits 2])) = Inr STATUS_STOPPED"
    by code_simp
  have running: "fst (status_rabbitmq scripted_os (fresh [exits 0])) = Inr STATUS_RUNNING"
    by code_simp
  have started: "code_of scripted_os (status_checked scripted_os (fresh [exits 2]))
      ''sudo rabbitmq-server -detached'' = 0"
    by code_simp
  have parses: "\<exists>d. parse_bool (PyBool True) = Inr d"
    using parse_bool_True by blast
  have run: "new_events (fresh [exits 2])
        (snd (start_celery scripted_os ''localhost'' (PyBool True) (fresh [exits 2]))) =
       [Ran ''sudo rabbitmqctl status'' True True 2, Printed ''1'',
        Printed ''rabbitmq status: STOPPED'',
        Ran ''sudo rabbitmq-server -detached'' False False 0,
        Ran ''supervisorctl -c config/supervisord.conf start celeryd'' False False 0]"
    by code_simp
  have one: "STATUS_RUNNING \<noteq> STATUS_STOPPED"
    by (simp add: STATUS_RUNNING_def STATUS_STOPPED_def)
  show ?thesis
    using stopped running one
      start_celery_broker_first [OF stopped, of "''localhost''" "PyBool True"]
      start_celery_broker_first [OF running, of "''localhost''" "PyBool True"]
    by (simp only: Let_def started parses run) simp
qed

text \<open>
  C6, as the specification states it, fails. With a broker whose status command exits
  with 2 and whose start command exits with 0, \<^verbatim>\<open>start_celery\<close> runs the status query,
  starts the broker and issues the pool start action: no status query that returned
  RUNNING comes before the pool start action, and the status is not queried again.
\<close>

theorem start_celery_no_requery_counterexample:
  "new_events (fresh [exits 2])
     (snd (start_celery scripted_os ''localhost'' (PyBool True) (fresh [exits 2]))) =
     [Ran ''sudo rabbitmqctl status'' True True 2, Printed ''1'',
      Printed ''rabbitmq status: STOPPED'',
      Ran ''sudo rabbitmq-server -detached'' False False 0,
      Ran ''supervisorctl -c config/supervisord.conf start celeryd'' False False 0]
   \<and> \<not> preceded broker_confirmed_running (pool_start ''localhost'')
        (new_events (fresh [exits 2])
          (snd (start_celery scripted_os ''localhost'' (PyBool True) (fresh [exits 2]))))"
  by code_simp

text \<open>
  C6, amended. In every run \<^verbatim>\<open>start_celery\<close> queries the broker status exactly once, as
  the first thing it does, and never queries it again. Every pool start action comes after
  that query returned RUNNING (exit code 0) or after a broker start command; and unless
  \<^verbatim>\<open>env.warn_only\<close> was already set by the caller, that broker start command has exited
  with code 0.
\<close>

theorem start_celery_single_status_check:
  "(let evs = new_events s (snd (start_celery os hostname detached s)) in
    length (filter broker_status_query evs) = 1
    \<and> broker_status_query (hd evs)
    \<and> preceded (\<lambda>e. broker_confirmed_running e \<or> broker_start e) (pool_start hostname) evs
    \<and> (\<not> warn_only s \<longrightarrow>
         preceded (\<lambda>e. broker_confirmed_running e \<or> broker_started_ok e)
           (pool_start hostname) evs))"
  by (simp add: start_celery_events Let_def pool_events_no_status_query
      pool_events_all_pool_start broker_status_query_def broker_start_def
      broker_confirmed_running_def broker_started_ok_def
      pool_start_def RABBITMQ_CMD_def SUPERVISOR_CMD_def celery_worker_cmd_def PREFIX_def
      SUPERVISOR_CONFIG_def)

theorem start_celery_single_status_check_witness:
  "\<not> warn_only (fresh [exits 69, exits 0, exits 0])
   \<and> length (filter broker_status_query
        (new_events (fresh [exits 69, exits 0, exits 0])
          (snd (start_celery scripted_os ''ottertune'' (PyStr ''false'')
                 (fresh [exits 69, exits 0, exits 0]))))) = 1
   \<and> preceded (\<lambda>e. broker_confirmed_running e \<or> broker_started_ok e)
        (pool_start ''ottertune'')
        (new_events (fresh [exits 69, exits 0, exits 0])
          (snd (start_celery scripted_os ''ottertune'' (PyStr ''false'')
                 (fresh [exits 69, exits 0, exits 0]))))
   \<and> filter (pool_start ''ottertune'')
        (new_events (fresh [exits 69, exits 0, exits 0])
          (snd (start_celery scripted_os ''ottertune'' (PyStr ''false'')
                 (fresh [exits 69, exits 0, exits 0])))) =
       [Ran ''sudo -u celery python manage.py celery worker -l info'' False False 0]"
proof -
  have h: "\<not> warn_only (fresh [exits 69, exits 0, exits 0])"
    by (simp add: fresh_def)
  have run: "filter (pool_start ''ottertune'')
        (new_events (fresh [exits 69, exits 0, exits 0])
          (snd (start_celery scripted_os ''ottertune'' (PyStr ''false'')
                 (fresh [exits 69, exits 0, exits 0])))) =
       [Ran ''sudo -u celery python manage.py celery worker -l info'' False False 0]"
    by code_simp
  show ?thesis
    using h run
      start_celery_single_status_check
        [of "fresh [exits 69, exits 0, exits 0]" scripted_os "''ottertune''" "PyStr ''false''"]
    by (simp add: Let_def)
qed

text \<open>
  C5, as the specification states it, fails for \<^verbatim>\<open>start_celery\<close>. Called with
  \<^verbatim>\<open>detached=None\<close> while the broker is running, it runs the broker status command and
  prints the status before the invalid-argument error is raised; while the broker is
  stopped it also runs the broker start command first.
\<close>

theorem start_celery_invalid_flag_counterexample:
  "start_celery scripted_os ''localhost'' PyNone (fresh [exits 0]) =
     (Inl (Exception ''Cannot convert <type 'NoneType'> to bool''),
      \<lparr>world = [], warn_only = False,
        trace = [Ran ''sudo rabbitmqctl status'' True True 0, Printed ''0'',
                 Printed ''rabbitmq status: RUNNING'']\<rparr>)
   \<and> start_celery scripted_os ''localhost'' PyNone (fresh [exits 2]) =
     (Inl (Exception ''Cannot convert <type 'NoneType'> to bool''),
      \<lparr>world = [], warn_only = False,
        trace = [Ran ''sudo rabbitmqctl status'' True True 2, Printed ''1'',
                 Printed ''rabbitmq status: STOPPED'',
                 Ran ''sudo rabbitmq-server -detached'' False False 0]\<rparr>)"
  by code_simp

text \<open>
  C5, amended. Let the detached flag be a value \<^verbatim>\<open>parse_bool\<close> rejects, that is, neither a
  boolean nor a string (every string is accepted). Then \<^verbatim>\<open>start_rabbitmq\<close> raises the
  invalid-argument error \<^verbatim>\<open>Cannot convert <type> to bool\<close> before any command runs and
  without printing anything. \<^verbatim>\<open>start_celery\<close> always fails and never issues the pool start
  action, but it parses the flag only after the broker status query, which is its first
  command, and after the broker start when the status is STOPPED: it raises the
  invalid-argument error when those steps succeed, the unknown-status error when the
  status code is unknown, and Fabric's abort when the broker start command fails.
\<close>

theorem invalid_flag_rejected:
  assumes "parse_bool detached = Inl e"
  shows "(let k = code_of os s (RABBITMQ_CMD ''status'');
        c = ''sudo rabbitmq-server -detached'';
        k' = code_of os (status_checked os s) c;
        evs = new_events s (snd (start_celery os hostname detached s)) in
    e = Exception (''Cannot convert '' @ type_repr detached @ '' to bool'')
    \<and> start_rabbitmq os detached s = (Inl e, s)
    \<and> fst (start_celery os hostname detached s) =
        (if k = 0 then Inl e
         else if k = 2 \<or> k = 69 then
           (if k' \<noteq> 0 \<and> \<not> warn_only s then Inl (SystemExit (abort_message k' c)) else Inl e)
         else Inl (Exception (''Rabbitmq: unknown status '' @ str_int k)))
    \<and> broker_status_query (hd evs)
    \<and> (k = 2 \<or> k = 69 \<longrightarrow> length (filter broker_start evs) = 1)
    \<and> filter (pool_start hostname) evs = [])"
proof -
  have msg: "e = Exception (''Cannot convert '' @ type_repr detached @ '' to bool'')"
    using assms by (rule parse_bool_error)
  have broker: "start_rabbitmq os detached s = (Inl e, s)"
    by (simp add: start_rabbitmq_run assms)
  have first: "broker_status_query
      (hd (new_events s (snd (start_celery os hostname detached s))))"
    by (simp add: start_celery_invalid_events [OF assms] Let_def broker_status_query_def)
  have once: "code_of os s (RABBITMQ_CMD ''status'') = 2
        \<or> code_of os s (RABBITMQ_CMD ''status'') = 69 \<longrightarrow>
      length (filter broker_start
        (new_events s (snd (start_celery os hostname detached s)))) = 1"
    by (simp add: start_celery_invalid_events [OF assms] Let_def broker_start_def
        RABBITMQ_CMD_def)
  have never: "filter (pool_start hostname)
      (new_events s (snd (start_celery os hostname detached s))) = []"
    by (simp add: start_celery_invalid_events [OF assms] Let_def pool_start_def
        RABBITMQ_CMD_def SUPERVISOR_CMD_def celery_worker_cmd_def PREFIX_def
        SUPERVISOR_CONFIG_def)
  show ?thesis
    using msg broker first once never start_celery_invalid_result [OF assms, of os hostname s]
    by (simp only: Let_def)
qed

theorem invalid_flag_rejected_witness:
  "parse_bool (PyInt 1) = Inl (Exception ''Cannot convert <type 'int'> to bool'')
   \<and> start_rabbitmq scripted_os (PyInt 1) (fresh [exits 0]) =
       (Inl (Exception ''Cannot convert <type 'int'> to bool''), fresh [exits 0])
   \<and> fst (start_celery scripted_os ''localhost'' (PyInt 1) (fresh [exits 0])) =
       Inl (Exception ''Cannot convert <type 'int'> to bool'')
   \<and> filter (pool_start ''localhost'')
        (new_events (fresh [exits 0])
          (snd (start_celery scripted_os ''localhost'' (PyInt 1) (fresh [exits 0])))) = []"
proof -
  have h: "parse_bool (PyInt 1) = Inl (Exception ''Cannot convert <type 'int'> to bool'')"
    by code_simp
  show ?thesis
    using h invalid_flag_rejected [OF h, of scripted_os "fresh [exits 0]" "''localhost''"]
    by (simp add: Let_def scripted_code exits_def RABBITMQ_CMD_def)
qed

section \<open>Worker-pool status\<close>

text \<open>
  C2. Whenever the status pipeline of \<^verbatim>\<open>status_celery\<close> returns a result, the task maps
  the extracted token \<^verbatim>\<open>res.stdout\<close> as follows: the canonical names RUNNING and STOPPED
  give the status of that name, STARTING gives RUNNING, FATAL gives STOPPED, and every
  other token makes the task fail with the \<^verbatim>\<open>KeyError\<close> that carries the token; no token
  falls back to a default status.
\<close>

theorem status_celery_tokens:
  "fst (local os (SUPERVISOR_CMD hostname ''status'' @ field_extraction) True s) = Inr res \<Longrightarrow>
   fst (status_celery os hostname s) =
     (if stdout res = ''RUNNING'' then Inr STATUS_RUNNING
      else if stdout res = ''STOPPED'' then Inr STATUS_STOPPED
      else if stdout res = ''STARTING'' then Inr STATUS_RUNNING
      else if stdout res = ''FATAL'' then Inr STATUS_STOPPED
      else Inl (KeyError (stdout res)))"
  by (auto simp add: status_celery_run local_run celery_status_cmd_def Let_def split: if_splits)

theorem status_celery_tokens_witness:
  "fst (local scripted_os (SUPERVISOR_CMD ''localhost'' ''status'' @ field_extraction) True
          (fresh [\<lparr>stdout = ''FATAL'' @ [CHR 0x0A], return_code = 0\<rparr>])) =
     Inr \<lparr>stdout = ''FATAL'', return_code = 0\<rparr>
   \<and> fst (status_celery scripted_os ''localhost''
            (fresh [\<lparr>stdout = ''FATAL'' @ [CHR 0x0A], return_code = 0\<rparr>])) =
       Inr STATUS_STOPPED"
proof -
  have h: "fst (local scripted_os (SUPERVISOR_CMD ''localhost'' ''status'' @ field_extraction)
             True (fresh [\<lparr>stdout = ''FATAL'' @ [CHR 0x0A], return_code = 0\<rparr>])) =
     Inr \<lparr>stdout = ''FATAL'', return_code = 0\<rparr>"
    by code_simp
  show ?thesis
    using h status_celery_tokens [OF h]
    by simp
qed

section \<open>The status line\<close>

text \<open>
  C9. A status query that returns a status returns RUNNING or STOPPED, and the last thing
  it does is print the line \<^verbatim>\<open><service> status: <RUNNING|STOPPED>\<close> with the name of the
  queried service (\<^verbatim>\<open>rabbitmq\<close> or \<^verbatim>\<open>celery\<close>) and the name of the status it returns. The
  queries do succeed and print: \<^verbatim>\<open>status_rabbitmq\<close> returns STOPPED and prints
  \<^verbatim>\<open>rabbitmq status: STOPPED\<close> when the broker status command exits with code 2, and
  returns RUNNING and prints \<^verbatim>\<open>rabbitmq status: RUNNING\<close> when it exits with 0;
  \<^verbatim>\<open>status_celery\<close>, whenever its status pipeline returns a result, returns RUNNING and
  prints \<^verbatim>\<open>celery status: RUNNING\<close> for the tokens RUNNING and STARTING, and returns
  STOPPED and prints \<^verbatim>\<open>celery status: STOPPED\<close> for the tokens STOPPED and FATAL.
\<close>

theorem status_query_prints_line:
  "(fst (status_rabbitmq os s) = Inr st \<longrightarrow>
      (st = STATUS_RUNNING \<or> st = STATUS_STOPPED) \<and>
      last (new_events s (snd (status_rabbitmq os s))) =
        Printed (''rabbitmq status: '' @ status_name st))
   \<and> (fst (status_celery os hostname s) = Inr st' \<longrightarrow>
      (st' = STATUS_RUNNING \<or> st' = STATUS_STOPPED) \<and>
      last (new_events s (snd (status_celery os hostname s))) =
        Printed (''celery status: '' @ status_name st'))
   \<and> (code_of os s (RABBITMQ_CMD ''status'') = 2 \<longrightarrow>
      fst (status_rabbitmq os s) = Inr STATUS_STOPPED \<and>
      Printed ''rabbitmq status: STOPPED'' \<in> set (new_events s (snd (status_rabbitmq os s))))
   \<and> (code_of os s (RABBITMQ_CMD ''status'') = 0 \<longrightarrow>
      fst (status_rabbitmq os s) = Inr STATUS_RUNNING \<and>
      Printed ''rabbitmq status: RUNNING'' \<in> set (new_events s (snd (status_rabbitmq os s))))
   \<and> (fst (local os (SUPERVISOR_CMD hostname ''status'' @ field_extraction) True s) = Inr res \<longrightarrow>
      (stdout res = ''RUNNING'' \<or> stdout res = ''STARTING'' \<longrightarrow>
         fst (status_celery os hostname s) = Inr STATUS_RUNNING \<and>
         last (new_events s (snd (status_celery os hostname s))) =
           Printed ''celery status: RUNNING'') \<and>
      (stdout res = ''STOPPED'' \<or> stdout res = ''FATAL'' \<longrightarrow>
         fst (status_celery os hostname s) = Inr STATUS_STOPPED \<and>
         last (new_events s (snd (status_celery os hostname s))) =
           Printed ''celery status: STOPPED''))"
proof -
  have rabbit: "fst (status_rabbitmq os s) = Inr st \<longrightarrow>
      (st = STATUS_RUNNING \<or> st = STATUS_STOPPED) \<and>
      last (new_events s (snd (status_rabbitmq os s))) =
        Printed (''rabbitmq status: '' @ status_name st)"
    by (auto simp add: status_rabbitmq_run Let_def new_events_def status_checked_def
        status_name_def STATUS_RUNNING_def STATUS_STOPPED_def split: if_splits)
  have celery: "fst (status_celery os hostname s) = Inr st' \<longrightarrow>
      (st' = STATUS_RUNNING \<or> st' = STATUS_STOPPED) \<and>
      last (new_events s (snd (status_celery os hostname s))) =
        Printed (''celery status: '' @ status_name st')"
    by (auto simp add: status_celery_run Let_def new_events_def after_def printed_def
        status_name_def STATUS_RUNNING_def STATUS_STOPPED_def split: if_splits)
  have two: "code_of os s (RABBITMQ_CMD ''status'') = 2 \<longrightarrow>
      fst (status_rabbitmq os s) = Inr STATUS_STOPPED \<and>
      Printed ''rabbitmq status: STOPPED'' \<in> set (new_events s (snd (status_rabbitmq os s)))"
    by (simp add: status_rabbitmq_run Let_def new_events_def status_checked_def)
  have zero: "code_of os s (RABBITMQ_CMD ''status'') = 0 \<longrightarrow>
      fst (status_rabbitmq os s) = Inr STATUS_RUNNING \<and>
      Printed ''rabbitmq status: RUNNING'' \<in> set (new_events s (snd (status_rabbitmq os s)))"
    by (simp add: status_rabbitmq_run Let_def new_events_def status_checked_def)
  have pool: "fst (local os (SUPERVISOR_CMD hostname ''status'' @ field_extraction) True s) = Inr res \<longrightarrow>
      (stdout res = ''RUNNING'' \<or> stdout res = ''STARTING'' \<longrightarrow>
         fst (status_celery os hostname s) = Inr STATUS_RUNNING \<and>
         last (new_events s (snd (status_celery os hostname s))) =
           Printed ''celery status: RUNNING'') \<and>
      (stdout res = ''STOPPED'' \<or> stdout res = ''FATAL'' \<longrightarrow>
         fst (status_celery os hostname s) = Inr STATUS_STOPPED \<and>
         last (new_events s (snd (status_celery os hostname s))) =
           Printed ''celery status: STOPPED'')"
    by (auto simp add: status_celery_run local_run celery_status_cmd_def Let_def
        new_events_def after_def printed_def split: if_splits)
  show ?thesis
    using rabbit celery two zero pool by blast
qed

theorem status_query_prints_line_witness:
  "code_of scripted_os (fresh [exits 2]) (RABBITMQ_CMD ''status'') = 2
   \<and> fst (status_rabbitmq scripted_os (fresh [exits 2])) = Inr STATUS_STOPPED
   \<and> Printed ''rabbitmq status: STOPPED''
       \<in> set (new_events (fresh [exits 2]) (snd (status_rabbitmq scripted_os (fresh [exits 2]))))
   \<and> last (new_events (fresh [exits 2]) (snd (status_rabbitmq scripted_os (fresh [exits 2])))) =
       Printed ''rabbitmq status: STOPPED''
   \<and> fst (local scripted_os (SUPERVISOR_CMD ''localhost'' ''status'' @ field_extraction) True
          (fresh [\<lparr>stdout = ''RUNNING'' @ [CHR 0x0A], return_code = 0\<rparr>])) =
       Inr \<lparr>stdout = ''RUNNING'', return_code = 0\<rparr>
   \<and> fst (status_celery scripted_os ''localhost''
          (fresh [\<lparr>stdout = ''RUNNING'' @ [CHR 0x0A], return_code = 0\<rparr>])) = Inr STATUS_RUNNING
   \<and> last (new_events (fresh [\<lparr>stdout = ''RUNNING'' @ [CHR 0x0A], return_code = 0\<rparr>])
        (snd (status_celery scripted_os ''localhost''
          (fresh [\<lparr>stdout = ''RUNNING'' @ [CHR 0x0A], return_code = 0\<rparr>])))) =
       Printed ''celery status: RUNNING''"
proof -
  have h: "code_of scripted_os (fresh [exits 2]) (RABBITMQ_CMD ''status'') = 2"
    by (simp add: scripted_code exits_def)
  have extracted:
    "fst (local scripted_os (SUPERVISOR_CMD ''localhost'' ''status'' @ field_extraction) True
          (fresh [\<lparr>stdout = ''RUNNING'' @ [CHR 0x0A], return_code = 0\<rparr>])) =
       Inr \<lparr>stdout = ''RUNNING'', return_code = 0\<rparr>"
    by code_simp
  show ?thesis
    using h extracted
      status_query_prints_line
        [where os = scripted_os and s = "fresh [exits 2]" and st = STATUS_STOPPED
           and hostname = "''localhost''"]
      status_query_prints_line
        [where os = scripted_os
           and s = "fresh [\<lparr>stdout = ''RUNNING'' @ [CHR 0x0A], return_code = 0\<rparr>]"
           and hostname = "''localhost''"
           and res = "\<lparr>stdout = ''RUNNING'', return_code = 0\<rparr>"]
    by (simp add: status_name_def STATUS_RUNNING_def STATUS_STOPPED_def)
qed

section \<open>Stopping the worker pool\<close>

text \<open>
  C8, as the specification states it, fails: \<^verbatim>\<open>stop_celery\<close> does not absorb a nonzero
  exit of the process manager. With a process manager that stops the pool with exit code 0
  and answers the second stop with exit code 1, the first \<^verbatim>\<open>stop_celery\<close> returns and
  the second one, called right after it, aborts.
\<close>

theorem stop_celery_twice_counterexample:
  "fst (stop_celery scripted_os ''localhost'' (fresh [exits 0, exits 1])) = Inr ()
   \<and> fst (stop_celery scripted_os ''localhost''
            (snd (stop_celery scripted_os ''localhost'' (fresh [exits 0, exits 1])))) =
       Inl (SystemExit (abort_message 1 ''supervisorctl -c config/supervisord.conf stop celeryd''))"
  by code_simp

text \<open>
  C8, amended. \<^verbatim>\<open>stop_celery\<close> runs the process-manager stop action exactly once, without
  the warn-only policy and without querying any status. It returns normally exactly when
  that command exits with code 0 (or \<^verbatim>\<open>env.warn_only\<close> was already set by the caller) and
  aborts otherwise. The same holds for a second call made right after the first: stopping
  twice raises no error as long as the process manager's stop command exits with 0 both
  times.
\<close>

theorem stop_celery_passes_exit_code:
  "(let c = SUPERVISOR_CMD hostname ''stop''; k = code_of os s c;
        s1 = snd (stop_celery os hostname s); k' = code_of os s1 c in
    fst (stop_celery os hostname s) =
      (if k \<noteq> 0 \<and> \<not> warn_only s then Inl (SystemExit (abort_message k c)) else Inr ())
    \<and> new_events s s1 = [Ran c False (warn_only s) k]
    \<and> fst (stop_celery os hostname s1) =
      (if k' \<noteq> 0 \<and> \<not> warn_only s then Inl (SystemExit (abort_message k' c)) else Inr ())
    \<and> new_events s1 (snd (stop_celery os hostname s1)) = [Ran c False (warn_only s) k'])"
  by (simp add: stop_celery_run Let_def new_events_def after_def)

theorem stop_celery_passes_exit_code_witness:
  "fst (stop_celery scripted_os ''localhost'' (fresh [exits 0, exits 0])) = Inr ()
   \<and> fst (stop_celery scripted_os ''localhost''
            (snd (stop_celery scripted_os ''localhost'' (fresh [exits 0, exits 0])))) = Inr ()
   \<and> new_events (fresh [exits 0, exits 0])
        (snd (stop_celery scripted_os ''localhost'' (fresh [exits 0, exits 0]))) =
       [Ran ''supervisorctl -c config/supervisord.conf stop celeryd'' False False 0]"
proof -
  have k: "code_of scripted_os (fresh [exits 0, exits 0])
      ''supervisorctl -c config/supervisord.conf stop celeryd'' = 0"
    by (simp add: scripted_code exits_def)
  have k': "code_of scripted_os
      (snd (stop_celery scripted_os ''localhost'' (fresh [exits 0, exits 0])))
      ''supervisorctl -c config/supervisord.conf stop celeryd'' = 0"
    by code_simp
  have c: "SUPERVISOR_CMD ''localhost'' ''stop'' =
      ''supervisorctl -c config/supervisord.conf stop celeryd''"
    by code_simp
  have w: "\<not> warn_only (fresh [exits 0, exits 0])"
    by (simp add: fresh_def)
  show ?thesis
    using stop_celery_passes_exit_code [of "''localhost''" scripted_os "fresh [exits 0, exits 0]"]
    by (simp add: Let_def k k' c w)
qed

section \<open>Stopping everything\<close>

text \<open>
  C4, as the specification states it, fails in its second half: when the worker-pool stop
  command exits with code 1, \<^verbatim>\<open>stop_celery\<close> aborts, the exception leaves \<^verbatim>\<open>stop_all\<close>, and
  the broker stop command is never run.
\<close>

theorem stop_all_short_circuit_counterexample:
  "fst (stop_all scripted_os ''localhost'' (fresh [exits 1])) =
     Inl (SystemExit (abort_message 1 ''supervisorctl -c config/supervisord.conf stop celeryd''))
   \<and> new_events (fresh [exits 1]) (snd (stop_all scripted_os ''localhost'' (fresh [exits 1]))) =
       [Ran ''supervisorctl -c config/supervisord.conf stop celeryd'' False False 1]
   \<and> filter broker_stop
       (new_events (fresh [exits 1])
         (snd (stop_all scripted_os ''localhost'' (fresh [exits 1])))) = []"
  by code_simp

text \<open>
  C4, amended. Every run of \<^verbatim>\<open>stop_all\<close> starts with the worker-pool stop action, and a
  broker stop command is never run before it. The broker stop command follows, with the
  warn-only policy, exactly when the worker-pool stop command exits with code 0 (or
  \<^verbatim>\<open>env.warn_only\<close> was already set by the caller), and \<^verbatim>\<open>stop_all\<close> then returns normally
  whatever the broker stop command's exit code is. When the worker-pool stop command exits
  with another code, \<^verbatim>\<open>stop_all\<close> aborts with Fabric's error and runs nothing else.
\<close>

theorem stop_all_pool_then_broker:
  "(let c = SUPERVISOR_CMD hostname ''stop''; k = code_of os s c;
        k' = code_of os (after os c False s) (RABBITMQ_CMD ''stop'');
        evs = new_events s (snd (stop_all os hostname s)) in
    fst (stop_all os hostname s) =
      (if k \<noteq> 0 \<and> \<not> warn_only s then Inl (SystemExit (abort_message k c)) else Inr ())
    \<and> evs = Ran c False (warn_only s) k #
        (if k \<noteq> 0 \<and> \<not> warn_only s then []
         else [Ran (RABBITMQ_CMD ''stop'') False True k'])
    \<and> pool_stop hostname (hd evs)
    \<and> preceded (pool_stop hostname) broker_stop evs)"
  by (simp add: stop_all_def bind_task_def stop_celery_run stop_rabbitmq_run Let_def
      new_events_def after_def code_of_def pool_stop_def broker_stop_def RABBITMQ_CMD_def
      SUPERVISOR_CMD_def PREFIX_def SUPERVISOR_CONFIG_def)

theorem stop_all_pool_then_broker_witness:
  "fst (stop_all scripted_os ''ottertune'' (fresh [exits 0, exits 69])) = Inr ()
   \<and> new_events (fresh [exits 0, exits 69])
        (snd (stop_all scripted_os ''ottertune'' (fresh [exits 0, exits 69]))) =
       [Ran ''sudo -u celery supervisorctl -c config/prod_supervisord.conf stop celeryd''
          False False 0,
        Ran ''sudo rabbitmqctl stop'' False True 69]"
proof -
  have k: "code_of scripted_os (fresh [exits 0, exits 69])
      ''sudo -u celery supervisorctl -c config/prod_supervisord.conf stop celeryd'' = 0"
    by (simp add: scripted_code exits_def)
  have k': "code_of scripted_os
      (after scripted_os
        ''sudo -u celery supervisorctl -c config/prod_supervisord.conf stop celeryd'' False
        (fresh [exits 0, exits 69]))
      ''sudo rabbitmqctl stop'' = 69"
    by code_simp
  have c: "SUPERVISOR_CMD ''ottertune'' ''stop'' =
      ''sudo -u celery supervisorctl -c config/prod_supervisord.conf stop celeryd''"
    by code_simp
  have w: "\<not> warn_only (fresh [exits 0, exits 69])"
    by (simp add: fresh_def)
  show ?thesis
    using stop_all_pool_then_broker [of "''ottertune''" scripted_os "fresh [exits 0, exits 69]"]
    by (simp add: Let_def k k' c w RABBITMQ_CMD_def)
qed

end
